theory Spec2Isabelle
  imports Main
begin

section \<open>Text primitives\<close>

text \<open>
  The program works on Python \<open>str\<close> values. A string is modelled as a list of
  characters whose code points lie below 256; the character classes below are the ones
  Python's \<open>str.isspace\<close>, \<open>\s\<close>, \<open>\w\<close> and \<open>\d\<close> have on that range.
\<close>

abbreviation NL :: char where
  "NL \<equiv> CHR 0x0A"

definition isspace :: "char \<Rightarrow> bool" where
  "isspace c = (let n = (of_char c :: nat)
                in (9 \<le> n \<and> n \<le> 13) \<or> (28 \<le> n \<and> n \<le> 32) \<or> n = 133 \<or> n = 160)"

definition isdigit :: "char \<Rightarrow> bool" where
  "isdigit c = (let n = (of_char c :: nat) in 48 \<le> n \<and> n \<le> 57)"

definition isword :: "char \<Rightarrow> bool" where
  "isword c = (let n = (of_char c :: nat)
               in (48 \<le> n \<and> n \<le> 57) \<or> (65 \<le> n \<and> n \<le> 90) \<or> n = 95 \<or> (97 \<le> n \<and> n \<le> 122)
                  \<or> n = 170 \<or> n = 178 \<or> n = 179 \<or> n = 181 \<or> n = 185 \<or> n = 186
                  \<or> (188 \<le> n \<and> n \<le> 190) \<or> (192 \<le> n \<and> n \<le> 214)
                  \<or> (216 \<le> n \<and> n \<le> 246) \<or> (248 \<le> n \<and> n \<le> 255))"

definition lstrip :: "string \<Rightarrow> string" where
  "lstrip s = dropWhile isspace s"

definition rstrip :: "string \<Rightarrow> string" where
  "rstrip s = rev (dropWhile isspace (rev s))"

definition strip :: "string \<Rightarrow> string" where
  "strip s = rstrip (lstrip s)"

fun startswith :: "string \<Rightarrow> string \<Rightarrow> bool" where
  "startswith s [] = True"
| "startswith [] (p # ps) = False"
| "startswith (c # cs) (p # ps) = (c = p \<and> startswith cs ps)"

definition endswith :: "string \<Rightarrow> string \<Rightarrow> bool" where
  "endswith s suffix = startswith (rev s) (rev suffix)"

text \<open>\<open>sub in s\<close>.\<close>

fun contains :: "string \<Rightarrow> string \<Rightarrow> bool" where
  "contains [] sub = (sub = [])"
| "contains (c # cs) sub = (startswith (c # cs) sub \<or> contains cs sub)"

text \<open>\<open>s.split(sep)\<close> for a separator of one character: always at least one piece.\<close>

fun split :: "char \<Rightarrow> string \<Rightarrow> string list" where
  "split sep [] = [[]]"
| "split sep (c # cs) =
     (if c = sep then [] # split sep cs
      else (case split sep cs of
              [] \<Rightarrow> [[c]]
            | w # ws \<Rightarrow> (c # w) # ws))"

text \<open>\<open>'\n'.join(pieces)\<close>.\<close>

fun join_nl :: "string list \<Rightarrow> string" where
  "join_nl [] = []"
| "join_nl [s] = s"
| "join_nl (s # t # ss) = s @ NL # join_nl (t # ss)"

text \<open>
  \<open>len(line) - len(line.lstrip())\<close>: the number of leading whitespace characters.
\<close>

definition indent_width :: "string \<Rightarrow> nat" where
  "indent_width line = length line - length (lstrip line)"

definition get_indent :: "string \<Rightarrow> string" where
  "get_indent line = replicate (length line - length (lstrip line)) CHR '' ''"

section \<open>Block helpers\<close>

definition wrap_in_try_except :: "string \<Rightarrow> string \<Rightarrow> nat \<Rightarrow> string" where
  "wrap_in_try_except line exception_type indent_level =
     (let base_indent = replicate indent_level CHR '' '';
          inner_indent = replicate (indent_level + 4) CHR '' ''
      in base_indent @ ''try:'' @ [NL] @ inner_indent @ strip line @ [NL]
         @ base_indent @ ''except '' @ exception_type @ '':'' @ [NL]
         @ inner_indent @ ''return {}'' @ [NL])"

text \<open>
  The \<open>while\<close> loop of \<open>get_indented_block\<close>: \<open>idx\<close> runs over the lines after the
  start line and \<open>block_lines\<close> grows by one entry per line taken.
\<close>

function block_loop :: "string list \<Rightarrow> nat \<Rightarrow> nat \<Rightarrow> string list \<Rightarrow> string list" where
  "block_loop lines base_indent idx block_lines =
     (if idx < length lines then
        (let line = lines ! idx
         in if strip line = [] then block_loop lines base_indent (idx + 1) (block_lines @ [[]])
            else if indent_width line \<le> base_indent then block_lines
            else block_loop lines base_indent (idx + 1) (block_lines @ [rstrip line]))
      else block_lines)"
  by pat_completeness auto
termination
  by (relation "measure (\<lambda>(lines, base_indent, idx, block_lines). length lines - idx)") auto

declare block_loop.simps [simp del]

definition get_indented_block :: "string list \<Rightarrow> nat \<Rightarrow> string list \<times> nat" where
  "get_indented_block lines start_idx =
     (if start_idx \<ge> length lines then ([], 0)
      else (let base_indent = indent_width (lines ! start_idx);
                block_lines = [rstrip (lines ! start_idx)]
            in (block_loop lines base_indent (start_idx + 1) block_lines, base_indent)))"

text \<open>
  \<open>' ' * extra_indent\<close> is empty for a negative count, which is what the truncating
  subtraction on \<open>nat\<close> gives.
\<close>

definition wrap_block_in_try_except :: "string list \<Rightarrow> nat \<Rightarrow> string \<Rightarrow> string" where
  "wrap_block_in_try_except block_lines base_indent exception_type =
     (let spaces = replicate base_indent CHR '' '';
          inner_spaces = replicate (base_indent + 4) CHR '' '';
          body = map (\<lambda>block_line.
                   if strip block_line \<noteq> [] then
                     (let line_indent = indent_width block_line;
                          extra_indent = line_indent - base_indent
                      in inner_spaces @ replicate extra_indent CHR '' '' @ lstrip block_line)
                   else []) block_lines;
          fixed_lines = [spaces @ ''try:''] @ body
                        @ [spaces @ ''except '' @ exception_type @ '':'']
                        @ [inner_spaces @ ''return {}'']
      in join_nl fixed_lines @ [NL])"

section \<open>Regular expressions of the program\<close>

text \<open>
  Each regular expression of the source is a function on the text. \<open>re.search\<close> tries
  the pattern at every position from the left; \<open>re_search\<close> does that for a pattern
  given by its match at the head of the remaining text. The patterns below are made of
  runs of one character class followed by a character outside that class, so the greedy
  run is the only length that can match and no backtracking changes the result.
\<close>

fun re_search :: "(string \<Rightarrow> 'a option) \<Rightarrow> string \<Rightarrow> 'a option" where
  "re_search m [] = m []"
| "re_search m (c # cs) = (case m (c # cs) of Some r \<Rightarrow> Some r | None \<Rightarrow> re_search m cs)"

text \<open>
  \<open>re.sub(pattern, template, line, count=1)\<close>: the leftmost match is replaced, the text
  is returned as it is when nothing matches. The match function returns the replacement
  and the text after the match.
\<close>

fun sub_first :: "(string \<Rightarrow> (string \<times> string) option) \<Rightarrow> string \<Rightarrow> string option" where
  "sub_first m [] = (case m [] of Some (r, rest) \<Rightarrow> Some (r @ rest) | None \<Rightarrow> None)"
| "sub_first m (c # cs) =
     (case m (c # cs) of
        Some (r, rest) \<Rightarrow> Some (r @ rest)
      | None \<Rightarrow> map_option (\<lambda>t. c # t) (sub_first m cs))"

definition re_sub1 :: "(string \<Rightarrow> (string \<times> string) option) \<Rightarrow> string \<Rightarrow> string" where
  "re_sub1 m line = (case sub_first m line of Some t \<Rightarrow> t | None \<Rightarrow> line)"

abbreviation SQ :: char where
  "SQ \<equiv> CHR 0x27"

abbreviation DQ :: char where
  "DQ \<equiv> CHR 0x22"

text \<open>\<open>local variable '(\w+)'\<close>, returning group 1.\<close>

definition m_local_variable :: "string \<Rightarrow> string option" where
  "m_local_variable s =
     (if startswith s (''local variable '' @ [SQ]) then
        (let rest = drop 16 s; name = takeWhile isword rest; after = dropWhile isword rest
         in if name \<noteq> [] \<and> startswith after [SQ] then Some name else None)
      else None)"

text \<open>\<open>re.match(r'^\s*def\s+\w+\s*\(', line)\<close>.\<close>

definition is_def_line :: "string \<Rightarrow> bool" where
  "is_def_line line =
     (let s1 = dropWhile isspace line
      in startswith s1 ''def'' \<and>
         (let s2 = drop 3 s1; s3 = dropWhile isspace s2
          in takeWhile isspace s2 \<noteq> [] \<and>
             (let s4 = dropWhile isword s3
              in takeWhile isword s3 \<noteq> [] \<and> startswith (dropWhile isspace s4) ''('')))"

text \<open>
  \<open>re.search(r'\b(with|for|while)\b', line)\<close>: one of the three words with no word
  character directly before or after it. The flag says whether the character before the
  current position is a word character.
\<close>

definition kw_at :: "string \<Rightarrow> string \<Rightarrow> bool" where
  "kw_at w s = (startswith s w \<and> (case drop (length w) s of [] \<Rightarrow> True | d # _ \<Rightarrow> \<not> isword d))"

fun kw_search :: "bool \<Rightarrow> string \<Rightarrow> bool" where
  "kw_search prev [] = False"
| "kw_search prev (c # cs) =
     ((\<not> prev \<and> (kw_at ''with'' (c # cs) \<or> kw_at ''for'' (c # cs) \<or> kw_at ''while'' (c # cs)))
      \<or> kw_search (isword c) cs)"

definition search_block_keyword :: "string \<Rightarrow> bool" where
  "search_block_keyword line = kw_search False line"

text \<open>\<open>open\s*\(\<close>\<close>

definition m_open_call :: "string \<Rightarrow> unit option" where
  "m_open_call s =
     (if startswith s ''open'' \<and> startswith (dropWhile isspace (drop 4 s)) ''('' then Some () else None)"

text \<open>\<open>\]\s*\[\<close>\<close>

definition m_chained_access :: "string \<Rightarrow> unit option" where
  "m_chained_access s =
     (if startswith s '']'' \<and> startswith (dropWhile isspace (drop 1 s)) ''['' then Some () else None)"

text \<open>
  \<open>(\w+)\[(['\"])([^'\"]+)\2\]\<close> with the template \<open>\1.get(\2\3\2, None)\<close>: the
  result is the replacement text and the text after the match.
\<close>

definition m_literal_key :: "string \<Rightarrow> (string \<times> string) option" where
  "m_literal_key s =
     (let name = takeWhile isword s
      in if name = [] then None
         else (case dropWhile isword s of
                 b # q # rest \<Rightarrow>
                   if b = CHR ''['' \<and> (q = SQ \<or> q = DQ) then
                     (let key = takeWhile (\<lambda>c. c \<noteq> SQ \<and> c \<noteq> DQ) rest
                      in if key = [] then None
                         else (case dropWhile (\<lambda>c. c \<noteq> SQ \<and> c \<noteq> DQ) rest of
                                 q' # e # after \<Rightarrow>
                                   if q' = q \<and> e = CHR '']''
                                   then Some (name @ ''.get('' @ [q] @ key @ [q] @ '', None)'', after)
                                   else None
                               | _ \<Rightarrow> None))
                   else None
               | _ \<Rightarrow> None))"

text \<open>\<open>(\w+)\[(\w+)\]\<close> with the template \<open>\1.get(\2, None)\<close>.\<close>

definition m_variable_key :: "string \<Rightarrow> (string \<times> string) option" where
  "m_variable_key s =
     (let name = takeWhile isword s
      in if name = [] then None
         else (case dropWhile isword s of
                 b # rest \<Rightarrow>
                   if b = CHR ''['' then
                     (let key = takeWhile isword rest
                      in if key = [] then None
                         else (case dropWhile isword rest of
                                 e # after \<Rightarrow>
                                   if e = CHR '']''
                                   then Some (name @ ''.get('' @ key @ '', None)'', after)
                                   else None
                               | [] \<Rightarrow> None))
                   else None
               | [] \<Rightarrow> None))"

section \<open>The handler of UnboundLocalError\<close>

datatype error = IndexError | OSError | TransformError

text \<open>\<open>s.count(sub)\<close>: occurrences that do not overlap, counted from the left.\<close>

function count_sub :: "string \<Rightarrow> string \<Rightarrow> nat" where
  "count_sub s sub =
     (if sub = [] then length s + 1
      else if s = [] then 0
      else if startswith s sub then 1 + count_sub (drop (length sub) s) sub
      else count_sub (tl s) sub)"
  by pat_completeness auto
termination
  by (relation "measure (\<lambda>(s, sub). length s)") auto

declare count_sub.simps [simp del]

text \<open>
  The backward search for the enclosing \<open>def\<close>:
  \<open>for i in range(line_number - 1, -1, -1)\<close>, called with the number of lines still to
  look at.
\<close>

fun find_def_line :: "string list \<Rightarrow> nat \<Rightarrow> nat option" where
  "find_def_line lines 0 = None"
| "find_def_line lines (Suc i) = (if is_def_line (lines ! i) then Some i else find_def_line lines i)"

text \<open>The loop that looks for the line closing a docstring of several lines.\<close>

function skip_docstring :: "string list \<Rightarrow> string \<Rightarrow> nat \<Rightarrow> nat" where
  "skip_docstring lines quote_type insert_idx =
     (if insert_idx < length lines then
        (if contains (lines ! insert_idx) quote_type then insert_idx + 1
         else skip_docstring lines quote_type (insert_idx + 1))
      else insert_idx)"
  by pat_completeness auto
termination
  by (relation "measure (\<lambda>(lines, quote_type, insert_idx). length lines - insert_idx)") auto

declare skip_docstring.simps [simp del]

definition triple_dq :: string where
  "triple_dq = [DQ, DQ, DQ]"

definition triple_sq :: string where
  "triple_sq = [SQ, SQ, SQ]"

definition find_insert_idx :: "string list \<Rightarrow> nat \<Rightarrow> nat" where
  "find_insert_idx lines func_line_idx =
     (let insert_idx = func_line_idx + 1
      in if insert_idx < length lines then
           (let stripped = strip (lines ! insert_idx)
            in if startswith stripped triple_dq \<or> startswith stripped triple_sq then
                 (let quote_type = (if startswith stripped triple_dq then triple_dq else triple_sq)
                  in if count_sub stripped quote_type \<ge> 2 then insert_idx + 1
                     else skip_docstring lines quote_type (insert_idx + 1))
               else insert_idx)
         else insert_idx)"

text \<open>
  The check for an initialisation that is already there: the lines from the one after the
  header up to two lines past the insertion point, each tested by text containment.
\<close>

definition var_already_initialized :: "string list \<Rightarrow> nat \<Rightarrow> nat \<Rightarrow> string \<Rightarrow> bool" where
  "var_already_initialized lines func_line_idx insert_idx var_name =
     list_ex (\<lambda>i. contains (lines ! i) (var_name @ '' = None'') \<and> contains (lines ! i) ''Initialize'')
       [func_line_idx + 1 ..< min (insert_idx + 3) (length lines)]"

text \<open>
  The result is Python's \<open>None\<close>, \<open>False\<close> or \<open>True\<close> together with the list of lines,
  which the handler changes in place when it inserts. Reading \<open>lines[line_number - 1]\<close>
  or \<open>lines[0]\<close> beyond the list raises.
\<close>

definition fix_unbound_local_error ::
  "string list \<Rightarrow> nat \<Rightarrow> string \<Rightarrow> string \<Rightarrow> error + (bool option \<times> string list)" where
  "fix_unbound_local_error lines line_number indent error_msg =
     (case re_search m_local_variable error_msg of
        None \<Rightarrow> Inr (None, lines)
      | Some var_name \<Rightarrow>
          if line_number > length lines \<or> lines = [] then Inl IndexError
          else
            (let func_line_idx = (case find_def_line lines line_number of None \<Rightarrow> 0 | Some i \<Rightarrow> i);
                 insert_idx = find_insert_idx lines func_line_idx
             in if var_already_initialized lines func_line_idx insert_idx var_name
                then Inr (Some False, lines)
                else
                  (let func_indent = get_indent (lines ! func_line_idx);
                       body_indent = func_indent @ ''    '';
                       init_line = body_indent @ var_name
                                   @ '' = None  # Initialize to fix UnboundLocalError'' @ [NL]
                   in Inr (Some True, take insert_idx lines @ [init_line] @ drop insert_idx lines))))"

section \<open>The rule table\<close>

text \<open>
  A rule has a trigger (\<open>re.search(pattern['detect'], line)\<close>, here the predicate the
  pattern decides), a fix and the \<open>multiline\<close> flag. The fix is either the marker of the
  special handler or a function of the line, its indentation and the error message, which
  may raise.
\<close>

datatype fixer = special_unbound_local | Lambda "string \<Rightarrow> string \<Rightarrow> string \<Rightarrow> error + string"

record pattern =
  detect :: "string \<Rightarrow> bool"
  fixer :: fixer
  multiline :: bool

type_synonym database = "string \<Rightarrow> pattern list option"

definition FileNotFoundError_patterns :: "pattern list" where
  "FileNotFoundError_patterns =
     [\<lparr>detect = (\<lambda>line. re_search m_open_call line \<noteq> None),
       fixer = Lambda (\<lambda>line indent error_msg.
                 Inr (wrap_in_try_except line ''FileNotFoundError'' (length indent))),
       multiline = True\<rparr>]"

definition KeyError_chained :: pattern where
  "KeyError_chained =
     \<lparr>detect = (\<lambda>line. re_search m_chained_access line \<noteq> None),
      fixer = Lambda (\<lambda>line indent error_msg.
                Inr (wrap_in_try_except line ''(IndexError, KeyError, TypeError)'' (length indent))),
      multiline = True\<rparr>"

definition KeyError_literal :: pattern where
  "KeyError_literal =
     \<lparr>detect = (\<lambda>line. re_search m_literal_key line \<noteq> None),
      fixer = Lambda (\<lambda>line indent error_msg. Inr (re_sub1 m_literal_key line)),
      multiline = False\<rparr>"

definition KeyError_variable :: pattern where
  "KeyError_variable =
     \<lparr>detect = (\<lambda>line. re_search m_variable_key line \<noteq> None),
      fixer = Lambda (\<lambda>line indent error_msg. Inr (re_sub1 m_variable_key line)),
      multiline = False\<rparr>"

definition KeyError_patterns :: "pattern list" where
  "KeyError_patterns = [KeyError_chained, KeyError_literal, KeyError_variable]"

definition UnboundLocalError_patterns :: "pattern list" where
  "UnboundLocalError_patterns =
     [\<lparr>detect = (\<lambda>line. True), fixer = special_unbound_local, multiline = False\<rparr>]"

text \<open>
  The table of the source has some thirty classes. The functions below take the table as
  an argument, so what is proved of them holds for the whole table; the three classes
  entered here are the ones whose rules are evaluated on concrete lines further down.
\<close>

definition ERROR_DATABASE :: database where
  "ERROR_DATABASE = map_of
     [(''FileNotFoundError'', FileNotFoundError_patterns),
      (''KeyError'', KeyError_patterns),
      (''UnboundLocalError'', UnboundLocalError_patterns)]"

section \<open>Files\<close>

text \<open>
  A file has its text, two permissions and, where the system sets a limit (a quota, a
  limit on the size of files, a full disk), the number of characters it can hold; the
  disk maps a path to the file there. The program opens files in text mode: on reading,
  \<open>\r\n\<close> and a lone \<open>\r\<close> arrive as \<open>\n\<close>, and \<open>readlines\<close> cuts the text after
  each \<open>\n\<close>; on writing (on a POSIX system) the text goes out as it is. Opening with
  mode \<open>'w'\<close> empties the file before anything is written, and \<open>writelines\<close> appends
  the items one after the other. A write past the limit raises, after the part that fits
  has gone out: the file is then left with that part.
\<close>

record file_node =
  content :: string
  readable :: bool
  writable :: bool
  capacity :: "nat option"

type_synonym disk = "string \<Rightarrow> file_node option"

fun universal_newlines :: "string \<Rightarrow> string" where
  "universal_newlines [] = []"
| "universal_newlines [c] = (if c = CHR 0x0D then [NL] else [c])"
| "universal_newlines (c # d # cs) =
     (if c = CHR 0x0D then
        (if d = NL then NL # universal_newlines cs else NL # universal_newlines (d # cs))
      else c # universal_newlines (d # cs))"

fun splitlines :: "string \<Rightarrow> string list" where
  "splitlines [] = []"
| "splitlines (c # cs) =
     (if c = NL then [NL] # splitlines cs
      else (case splitlines cs of
              [] \<Rightarrow> [[c]]
            | w # ws \<Rightarrow> (c # w) # ws))"

definition readlines :: "disk \<Rightarrow> string \<Rightarrow> error + string list" where
  "readlines disk file_path =
     (case disk file_path of
        None \<Rightarrow> Inl OSError
      | Some f \<Rightarrow> if readable f then Inr (splitlines (universal_newlines (content f)))
                  else Inl OSError)"

definition open_w :: "disk \<Rightarrow> string \<Rightarrow> disk option" where
  "open_w disk file_path =
     (case disk file_path of
        None \<Rightarrow> Some (disk(file_path \<mapsto>
                 \<lparr>content = [], readable = True, writable = True, capacity = None\<rparr>))
      | Some f \<Rightarrow> if writable f then Some (disk(file_path \<mapsto> f\<lparr>content := []\<rparr>)) else None)"

text \<open>
  One item written to the open file: the boolean says whether the write went through.
\<close>

definition write_str :: "disk \<Rightarrow> string \<Rightarrow> string \<Rightarrow> bool \<times> disk" where
  "write_str disk file_path s =
     (case disk file_path of
        None \<Rightarrow> (False, disk)
      | Some f \<Rightarrow>
          (case capacity f of
             None \<Rightarrow> (True, disk(file_path \<mapsto> f\<lparr>content := content f @ s\<rparr>))
           | Some c \<Rightarrow>
               if length (content f) + length s \<le> c
               then (True, disk(file_path \<mapsto> f\<lparr>content := content f @ s\<rparr>))
               else (False, disk(file_path \<mapsto> f\<lparr>content := take c (content f @ s)\<rparr>))))"

fun writelines :: "disk \<Rightarrow> string \<Rightarrow> string list \<Rightarrow> bool \<times> disk" where
  "writelines disk file_path [] = (True, disk)"
| "writelines disk file_path (line # lines) =
     (case write_str disk file_path line of
        (True, disk') \<Rightarrow> writelines disk' file_path lines
      | (False, disk') \<Rightarrow> (False, disk'))"

text \<open>
  \<open>with open(file_path, 'w') as f: f.writelines(lines)\<close>. The boolean is \<open>False\<close> when
  the statement raises: either the open is refused, which leaves the disk as it was, or a
  write raises after the open has emptied the file.
\<close>

definition write_file :: "disk \<Rightarrow> string \<Rightarrow> string list \<Rightarrow> bool \<times> disk" where
  "write_file disk file_path lines =
     (case open_w disk file_path of
        None \<Rightarrow> (False, disk)
      | Some disk' \<Rightarrow> writelines disk' file_path lines)"

text \<open>
  The same statement when the process is stopped after \<open>k\<close> items of \<open>lines\<close> have gone
  out: the file was emptied by the open and holds what was written until then.
\<close>

definition write_file_stopped :: "disk \<Rightarrow> string \<Rightarrow> string list \<Rightarrow> nat \<Rightarrow> disk option" where
  "write_file_stopped disk file_path lines k =
     map_option (\<lambda>d. snd (writelines d file_path (take k lines))) (open_w disk file_path)"

section \<open>The patch engine\<close>

text \<open>\<open>lines[i] = v\<close>, which raises beyond the end of the list.\<close>

definition set_item :: "'a list \<Rightarrow> nat \<Rightarrow> 'a \<Rightarrow> error + 'a list" where
  "set_item xs i v = (if i < length xs then Inr (xs[i := v]) else Inl IndexError)"

definition ensure_newline :: "string \<Rightarrow> string" where
  "ensure_newline fixed = (if endswith fixed [NL] then fixed else fixed @ [NL])"

text \<open>
  The splice of the block branch: \<open>fixed\<close> is cut at \<open>\n\<close>, the empty pieces are left
  out, and the pieces replace \<open>lines_to_replace\<close> lines from the failing line on.
\<close>

definition replace_block :: "string list \<Rightarrow> nat \<Rightarrow> nat \<Rightarrow> string \<Rightarrow> string list" where
  "replace_block lines line_number lines_to_replace fixed =
     (let fixed_lines = split NL fixed;
          new_lines = map (\<lambda>line. line @ [NL]) (filter (\<lambda>line. line \<noteq> []) fixed_lines)
      in take (line_number - 1) lines @ new_lines @ drop (line_number - 1 + lines_to_replace) lines)"

text \<open>
  The part of the \<open>try\<close> body that computes the new list of lines for a rule with a
  function as its fix. \<open>Inl\<close> is an exception, raised before the list is changed.
\<close>

definition rewrite_lines ::
  "string \<Rightarrow> bool \<Rightarrow> (string \<Rightarrow> string \<Rightarrow> string \<Rightarrow> error + string) \<Rightarrow> string list \<Rightarrow> nat
     \<Rightarrow> string \<Rightarrow> string \<Rightarrow> string \<Rightarrow> error + string list" where
  "rewrite_lines error_type is_multiline f lines line_number target_line indent error_message =
     (let needs_block_wrap = (is_multiline \<and>
            (search_block_keyword target_line \<or> endswith (strip target_line) '':''))
      in if needs_block_wrap then
           (case get_indented_block lines (line_number - 1) of
              (block_lines, base_indent) \<Rightarrow>
                if block_lines \<noteq> [] then
                  (case (if error_type \<in> set [''FileNotFoundError'', ''JSONDecodeError'', ''PermissionError'']
                         then Inr (wrap_block_in_try_except block_lines base_indent error_type)
                         else f target_line indent error_message) of
                     Inl e \<Rightarrow> Inl e
                   | Inr fixed \<Rightarrow> Inr (replace_block lines line_number (length block_lines) fixed))
                else
                  (case f target_line indent error_message of
                     Inl e \<Rightarrow> Inl e
                   | Inr fixed \<Rightarrow> set_item lines (line_number - 1) (ensure_newline fixed)))
         else if is_multiline then
           (case f target_line indent error_message of
              Inl e \<Rightarrow> Inl e
            | Inr fixed \<Rightarrow> set_item lines (line_number - 1) fixed)
         else
           (case f target_line indent error_message of
              Inl e \<Rightarrow> Inl e
            | Inr fixed \<Rightarrow> set_item lines (line_number - 1) (ensure_newline fixed)))"

text \<open>
  One pass through the \<open>try\<close> body for a rule whose trigger matched: either
  \<open>fix_error\<close> returns \<open>True\<close> with the file written, or the loop goes on to the next
  rule (\<open>continue\<close>) with the list of lines as the pass left it in memory and the disk
  as the pass left it: untouched when the exception came before the write or the open
  was refused, with the target file cut short when a write raised after the open.
\<close>

datatype attempt = Returned bool disk | Continue "string list" disk

definition apply_pattern ::
  "string \<Rightarrow> pattern \<Rightarrow> disk \<Rightarrow> string \<Rightarrow> string list \<Rightarrow> nat \<Rightarrow> string \<Rightarrow> string \<Rightarrow> string
     \<Rightarrow> attempt" where
  "apply_pattern error_type pattern disk file_path lines line_number target_line indent error_message =
     (case fixer pattern of
        special_unbound_local \<Rightarrow>
          (case fix_unbound_local_error lines line_number indent error_message of
             Inl e \<Rightarrow> Continue lines disk
           | Inr (Some True, lines') \<Rightarrow>
               (case write_file disk file_path lines' of
                  (True, disk') \<Rightarrow> Returned True disk'
                | (False, disk') \<Rightarrow> Continue lines' disk')
           | Inr (_, lines') \<Rightarrow> Continue lines' disk)
      | Lambda f \<Rightarrow>
          (case rewrite_lines error_type (multiline pattern) f lines line_number target_line indent
                  error_message of
             Inl e \<Rightarrow> Continue lines disk
           | Inr lines' \<Rightarrow>
               (case write_file disk file_path lines' of
                  (True, disk') \<Rightarrow> Returned True disk'
                | (False, disk') \<Rightarrow> Continue lines' disk')))"

fun try_patterns ::
  "string \<Rightarrow> disk \<Rightarrow> string \<Rightarrow> nat \<Rightarrow> string \<Rightarrow> string \<Rightarrow> string \<Rightarrow> pattern list \<Rightarrow> string list
     \<Rightarrow> bool \<times> disk" where
  "try_patterns error_type disk file_path line_number target_line indent error_message [] lines =
     (False, disk)"
| "try_patterns error_type disk file_path line_number target_line indent error_message (pattern # rest) lines =
     (if detect pattern target_line then
        (case apply_pattern error_type pattern disk file_path lines line_number target_line indent
                error_message of
           Returned result disk' \<Rightarrow> (result, disk')
         | Continue lines' disk' \<Rightarrow>
             try_patterns error_type disk' file_path line_number target_line indent error_message rest
               lines')
      else try_patterns error_type disk file_path line_number target_line indent error_message rest lines)"

text \<open>
  \<open>fix_error\<close> returns its boolean and the disk it leaves. The line number comes from
  \<open>int\<close> of a run of digits and is a natural number.
\<close>

definition fix_error :: "database \<Rightarrow> disk \<Rightarrow> string \<Rightarrow> string \<Rightarrow> nat \<Rightarrow> string \<Rightarrow> bool \<times> disk" where
  "fix_error db disk file_path error_type line_number error_message =
     (case db error_type of
        None \<Rightarrow> (False, disk)
      | Some patterns \<Rightarrow>
          (case readlines disk file_path of
             Inl e \<Rightarrow> (False, disk)
           | Inr lines \<Rightarrow>
               if line_number > length lines \<or> line_number < 1 then (False, disk)
               else
                 (let target_line = lines ! (line_number - 1);
                      indent = get_indent target_line
                  in try_patterns error_type disk file_path line_number target_line indent
                       error_message patterns lines)))"

section \<open>The diagnostic parser\<close>

text \<open>\<open>int(digits)\<close> and \<open>str(n)\<close> for a natural number.\<close>

definition int_of_digits :: "string \<Rightarrow> nat" where
  "int_of_digits ds = foldl (\<lambda>n c. 10 * n + (of_char c - 48)) 0 ds"

function str_nat :: "nat \<Rightarrow> string" where
  "str_nat n = (if n < 10 then [char_of (48 + n)] else str_nat (n div 10) @ [char_of (48 + n mod 10)])"
  by pat_completeness auto
termination
  by (relation "measure id") auto

declare str_nat.simps [simp del]

text \<open>\<open>File "([^"]+)", line (\d+)\<close>, returning groups 1 and 2.\<close>

definition m_frame :: "string \<Rightarrow> (string \<times> string) option" where
  "m_frame s =
     (if startswith s (''File '' @ [DQ]) then
        (let rest = drop 6 s;
             file_path = takeWhile (\<lambda>c. c \<noteq> DQ) rest;
             after = dropWhile (\<lambda>c. c \<noteq> DQ) rest
         in if file_path \<noteq> [] \<and> startswith after ([DQ] @ '', line '') then
              (let digits = takeWhile isdigit (drop 8 after)
               in if digits \<noteq> [] then Some (file_path, digits) else None)
            else None)
      else None)"

text \<open>The scan for the error type, over the lines from the last to the first.\<close>

fun find_error_type :: "database \<Rightarrow> string list \<Rightarrow> string option" where
  "find_error_type db [] = None"
| "find_error_type db (line # rest) =
     (if strip line \<noteq> [] \<and> CHR '':'' \<in> set line then
        (let potential_error = strip (takeWhile (\<lambda>c. c \<noteq> CHR '':'') line);
             potential_error = (if CHR ''.'' \<in> set potential_error
                                then last (split CHR ''.'' potential_error)
                                else potential_error)
         in if db potential_error \<noteq> None \<or> endswith potential_error ''Error''
            then Some potential_error
            else find_error_type db rest)
      else find_error_type db rest)"

text \<open>The body of the loop that collects the frames, one line of the traceback at a time.\<close>

definition add_frame :: "(string \<times> nat) list \<Rightarrow> string \<Rightarrow> (string \<times> nat) list" where
  "add_frame all_frames line =
     (if contains line (''File '' @ [DQ]) \<and> contains line '', line '' then
        (case re_search m_frame line of
           Some (file_path, digits) \<Rightarrow>
             (let line_num = int_of_digits digits
              in if \<not> startswith file_path ''<'' \<and> \<not> contains file_path ''/lib/python''
                 then all_frames @ [(file_path, line_num)]
                 else all_frames)
         | None \<Rightarrow> all_frames)
      else all_frames)"

definition collect_frames :: "string list \<Rightarrow> (string \<times> nat) list" where
  "collect_frames lines = foldl add_frame [] lines"

text \<open>
  The choice of the frame. \<open>os.path.abspath\<close> is a function of the path given from
  outside; \<open>target_script\<close> is optional, and an empty one counts as absent.
\<close>

definition select_frame ::
  "(string \<Rightarrow> string) \<Rightarrow> string option \<Rightarrow> (string \<times> nat) list \<Rightarrow> string option \<times> nat option" where
  "select_frame abspath target_script all_frames =
     (let (error_file, error_line) =
            (case target_script of
               None \<Rightarrow> (None, None)
             | Some script \<Rightarrow>
                 if script \<noteq> [] \<and> all_frames \<noteq> [] then
                   (let target_abs = abspath script;
                        target_frames = filter (\<lambda>(f, ln). abspath f = target_abs) all_frames
                    in if target_frames \<noteq> []
                       then (Some (fst (last target_frames)), Some (snd (last target_frames)))
                       else (None, None))
                 else (None, None))
      in if (error_file = None \<or> error_file = Some []) \<and> all_frames \<noteq> []
         then (Some (fst (last all_frames)), Some (snd (last all_frames)))
         else (error_file, error_line))"

definition parse_error ::
  "database \<Rightarrow> (string \<Rightarrow> string) \<Rightarrow> string \<Rightarrow> string option
     \<Rightarrow> string option \<times> string option \<times> nat option \<times> string" where
  "parse_error db abspath stderr target_script =
     (let lines = split NL (strip stderr);
          error_type = find_error_type db (rev lines);
          all_frames = collect_frames lines;
          (error_file, error_line) = select_frame abspath target_script all_frames
      in (error_type, error_file, error_line, stderr))"

section \<open>The repair loop\<close>

text \<open>
  Running the target is the work of the Python interpreter: a function from the disk and
  the path of the script to the return code, the error stream and the disk the run
  leaves.
\<close>

type_synonym runner = "disk \<Rightarrow> string \<Rightarrow> (int \<times> string) \<times> disk"

definition run_and_capture_error :: "runner \<Rightarrow> disk \<Rightarrow> string \<Rightarrow> string option \<times> disk" where
  "run_and_capture_error run disk script_path =
     (case run disk script_path of
        ((returncode, stderr), disk') \<Rightarrow> (if returncode \<noteq> 0 then Some stderr else None, disk'))"

text \<open>The places where the loop is left by \<open>break\<close>, in the order of the source.\<close>

datatype exit_reason = Success | NoErrorType | NoLocation | ExternalFile | InfiniteLoop | FixFailed

record state =
  iteration :: nat
  fixed_errors :: "string list"
  disk_of :: disk

datatype step = Break exit_reason state | Next state

definition error_descriptor :: "string \<Rightarrow> nat \<Rightarrow> string" where
  "error_descriptor error_type error_line = error_type @ '' at line '' @ str_nat error_line"

text \<open>One pass through the body of the \<open>while\<close> loop.\<close>

definition loop_body :: "runner \<Rightarrow> database \<Rightarrow> (string \<Rightarrow> string) \<Rightarrow> string \<Rightarrow> state \<Rightarrow> step" where
  "loop_body run db abspath script_path s =
     (let iteration = iteration s + 1;
          (stderr, disk1) = run_and_capture_error run (disk_of s) script_path;
          s1 = s\<lparr>iteration := iteration, disk_of := disk1\<rparr>
      in case stderr of
           None \<Rightarrow> Break Success s1
         | Some stderr \<Rightarrow>
             if stderr = [] then Break Success s1
             else
               (case parse_error db abspath stderr (Some script_path) of
                  (error_type, error_file, error_line, full_error) \<Rightarrow>
                    (case error_type of
                       None \<Rightarrow> Break NoErrorType s1
                     | Some error_type \<Rightarrow>
                         if error_type = [] then Break NoErrorType s1
                         else
                           (case (error_file, error_line) of
                              (Some error_file, Some error_line) \<Rightarrow>
                                if error_file = [] \<or> error_line = 0 then Break NoLocation s1
                                else if abspath error_file \<noteq> abspath script_path
                                then Break ExternalFile s1
                                else
                                  (let descriptor = error_descriptor error_type error_line
                                   in if descriptor \<in> set (fixed_errors s1) then Break InfiniteLoop s1
                                      else
                                        (case fix_error db disk1 error_file error_type error_line
                                                full_error of
                                           (True, disk2) \<Rightarrow>
                                             Next (s1\<lparr>fixed_errors := fixed_errors s1 @ [descriptor],
                                                      disk_of := disk2\<rparr>)
                                         | (False, disk2) \<Rightarrow> Break FixFailed (s1\<lparr>disk_of := disk2\<rparr>)))
                            | _ \<Rightarrow> Break NoLocation s1))))"

text \<open>
  The loop \<open>while iteration < max_iterations\<close>. The result is the reason of the
  \<open>break\<close>, or \<open>None\<close> when the condition of the loop ended it, and the last state.
\<close>

function main_loop ::
  "runner \<Rightarrow> database \<Rightarrow> (string \<Rightarrow> string) \<Rightarrow> string \<Rightarrow> nat \<Rightarrow> state \<Rightarrow> exit_reason option \<times> state" where
  "main_loop run db abspath script_path max_iterations s =
     (if iteration s < max_iterations then
        (case loop_body run db abspath script_path s of
           Break reason s' \<Rightarrow> (Some reason, s')
         | Next s' \<Rightarrow> main_loop run db abspath script_path max_iterations s')
      else (None, s))"
  by pat_completeness auto

termination
  apply (relation "measure (\<lambda>(run, db, abspath, script_path, max_iterations, s).
                     max_iterations - iteration s)")
   apply simp
  apply (auto simp: loop_body_def Let_def split: prod.splits option.splits if_splits bool.splits)
  done

declare main_loop.simps [simp del]

text \<open>
  \<open>main\<close> from the line that sets \<open>max_iterations\<close>: the loop from the first state,
  then the test that prints the time-out message. The third component says whether that
  message is printed.
\<close>

definition main ::
  "runner \<Rightarrow> database \<Rightarrow> (string \<Rightarrow> string) \<Rightarrow> string \<Rightarrow> disk \<Rightarrow> exit_reason option \<times> state \<times> bool" where
  "main run db abspath script_path disk =
     (let max_iterations = 100;
          (reason, s) = main_loop run db abspath script_path max_iterations
                          \<lparr>iteration = 0, fixed_errors = [], disk_of = disk\<rparr>
      in (reason, s, iteration s \<ge> max_iterations))"

text \<open>
  The four terminal states of the specification, read off the way the loop was left.
\<close>

datatype terminal = Converged | Unrecoverable | Cycled | IterationLimitReached

fun terminal_of :: "exit_reason option \<Rightarrow> terminal" where
  "terminal_of None = IterationLimitReached"
| "terminal_of (Some Success) = Converged"
| "terminal_of (Some InfiniteLoop) = Cycled"
| "terminal_of (Some NoErrorType) = Unrecoverable"
| "terminal_of (Some NoLocation) = Unrecoverable"
| "terminal_of (Some ExternalFile) = Unrecoverable"
| "terminal_of (Some FixFailed) = Unrecoverable"

section \<open>Vocabulary of the statements\<close>

text \<open>
  A line that the scan of \<open>get_indented_block\<close> takes into the block, and the entry it
  puts into \<open>block_lines\<close> for it.
\<close>

definition blank_or_deeper :: "nat \<Rightarrow> string \<Rightarrow> bool" where
  "blank_or_deeper base_indent line = (strip line = [] \<or> base_indent < indent_width line)"

definition block_entry :: "string \<Rightarrow> string" where
  "block_entry line = (if strip line = [] then [] else rstrip line)"

text \<open>
  The span as the specification words it: the failing line and the lines directly after
  it whose indentation is strictly greater, up to the first line indented no deeper than
  the failing line or the end of the file.
\<close>

definition spec_block_span :: "string list \<Rightarrow> nat \<Rightarrow> nat" where
  "spec_block_span lines start_idx =
     1 + length (takeWhile (\<lambda>line. indent_width (lines ! start_idx) < indent_width line)
                   (drop (Suc start_idx) lines))"

text \<open>
  The buffer a rule gives when its pass through the \<open>try\<close> body reaches the write.
\<close>

definition patched_lines ::
  "string \<Rightarrow> pattern \<Rightarrow> string list \<Rightarrow> nat \<Rightarrow> string \<Rightarrow> string \<Rightarrow> string \<Rightarrow> string list option" where
  "patched_lines error_type pattern lines line_number target_line indent error_message =
     (case fixer pattern of
        special_unbound_local \<Rightarrow>
          (case fix_unbound_local_error lines line_number indent error_message of
             Inr (Some True, lines') \<Rightarrow> Some lines'
           | _ \<Rightarrow> None)
      | Lambda f \<Rightarrow>
          (case rewrite_lines error_type (multiline pattern) f lines line_number target_line indent
                  error_message of
             Inl e \<Rightarrow> None
           | Inr lines' \<Rightarrow> Some lines'))"

text \<open>
  The buffers that the rules of a class hand to the write, one after the other, as long
  as no write goes through: a rule whose trigger does not match is passed over, a rule
  that raises or declines gives no buffer, and the rule after a write that failed works
  on the list of lines as the failed rule left it in memory.
\<close>

fun buffers_tried ::
  "string \<Rightarrow> pattern list \<Rightarrow> string list \<Rightarrow> nat \<Rightarrow> string \<Rightarrow> string \<Rightarrow> string \<Rightarrow> string list list" where
  "buffers_tried error_type [] lines line_number target_line indent error_message = []"
| "buffers_tried error_type (pattern # rest) lines line_number target_line indent error_message =
     (if detect pattern target_line then
        (case patched_lines error_type pattern lines line_number target_line indent error_message of
           None \<Rightarrow> buffers_tried error_type rest lines line_number target_line indent error_message
         | Some lines' \<Rightarrow>
             lines' # buffers_tried error_type rest lines' line_number target_line indent error_message)
      else buffers_tried error_type rest lines line_number target_line indent error_message)"

text \<open>
  A text that the file at a path takes in full: the open for writing is granted and the
  text is within the limit of the file, if it has one.
\<close>

definition can_hold :: "disk \<Rightarrow> string \<Rightarrow> string \<Rightarrow> bool" where
  "can_hold disk file_path text =
     (case disk file_path of
        None \<Rightarrow> True
      | Some f \<Rightarrow> writable f \<and> (case capacity f of None \<Rightarrow> True | Some c \<Rightarrow> length text \<le> c))"

text \<open>
  Buffers handed to the write one after the other until a write goes through; each
  write that fails leaves its disk to the next.
\<close>

fun write_until :: "disk \<Rightarrow> string \<Rightarrow> string list list \<Rightarrow> bool \<times> disk" where
  "write_until disk file_path [] = (False, disk)"
| "write_until disk file_path (buffer # rest) =
     (if fst (write_file disk file_path buffer) then write_file disk file_path buffer
      else write_until (snd (write_file disk file_path buffer)) file_path rest)"




text \<open>
  The state at the head of the loop after \<open>k\<close> passes that went on to the next one,
  from the first state of \<open>main\<close>; \<open>None\<close> when the loop has ended before.
\<close>

fun state_after ::
  "runner \<Rightarrow> database \<Rightarrow> (string \<Rightarrow> string) \<Rightarrow> string \<Rightarrow> nat \<Rightarrow> disk \<Rightarrow> nat \<Rightarrow> state option" where
  "state_after run db abspath script_path max_iterations disk 0 =
     Some \<lparr>iteration = 0, fixed_errors = [], disk_of = disk\<rparr>"
| "state_after run db abspath script_path max_iterations disk (Suc k) =
     (case state_after run db abspath script_path max_iterations disk k of
        None \<Rightarrow> None
      | Some s \<Rightarrow>
          if iteration s < max_iterations then
            (case loop_body run db abspath script_path s of
               Next s' \<Rightarrow> Some s'
             | Break reason s' \<Rightarrow> None)
          else None)"

section \<open>Example inputs\<close>

definition always_ok :: "string \<Rightarrow> string \<Rightarrow> string \<Rightarrow> error + string" where
  "always_ok line indent error_msg = Inr line"

definition with_block_lines :: "string list" where
  "with_block_lines =
     [''with open(f) as h:'' @ [NL],
      ''    a = 1'' @ [NL],
      [NL],
      ''    b = 2'' @ [NL],
      ''c = 3'' @ [NL]]"

definition with_block_disk :: disk where
  "with_block_disk =
     Map.empty(''t.py'' \<mapsto> \<lparr>content = concat with_block_lines, readable = True, writable = True,
                         capacity = None\<rparr>)"

definition nested_block_lines :: "string list" where
  "nested_block_lines =
     [''def load(path):'' @ [NL],
      ''    with open(path) as h:'' @ [NL],
      ''        a = h.read()'' @ [NL],
      [NL],
      ''        b = a.strip()'' @ [NL],
      ''    return b'' @ [NL]]"

definition with_block_patched :: "string list" where
  "with_block_patched =
     [''try:'' @ [NL],
      ''    with open(f) as h:'' @ [NL],
      ''        a = 1'' @ [NL],
      ''        b = 2'' @ [NL],
      ''except FileNotFoundError:'' @ [NL],
      ''    return {}'' @ [NL],
      ''c = 3'' @ [NL]]"

definition unbound_message :: "string \<Rightarrow> string" where
  "unbound_message var_name =
     ''UnboundLocalError: cannot access local variable '' @ [SQ] @ var_name @ [SQ]
     @ '' where it is not associated with a value''"

definition deleted_local_lines :: "string list" where
  "deleted_local_lines =
     [''def f():'' @ [NL],
      ''    x = None  # Initialize to fix UnboundLocalError'' @ [NL],
      ''    del x'' @ [NL],
      ''    print(x)'' @ [NL]]"

definition deleted_local_disk :: disk where
  "deleted_local_disk =
     Map.empty(''t.py'' \<mapsto> \<lparr>content = concat deleted_local_lines, readable = True, writable = True,
                         capacity = None\<rparr>)"

definition two_locals_lines :: "string list" where
  "two_locals_lines =
     [''def f():'' @ [NL],
      ''    idx = None  # Initialize to fix UnboundLocalError'' @ [NL],
      ''    print(idx, x)'' @ [NL],
      ''    x = 1'' @ [NL]]"

definition two_locals_disk :: disk where
  "two_locals_disk =
     Map.empty(''t.py'' \<mapsto> \<lparr>content = concat two_locals_lines, readable = True, writable = True,
                         capacity = None\<rparr>)"

definition key_chain_lines :: "string list" where
  "key_chain_lines = [''x = d['' @ [DQ] @ ''a'' @ [DQ] @ '']['' @ [DQ] @ ''b'' @ [DQ] @ '']'' @ [NL]]"

definition key_chain_disk :: disk where
  "key_chain_disk =
     Map.empty(''t.py'' \<mapsto> \<lparr>content = concat key_chain_lines, readable = True, writable = True,
                         capacity = None\<rparr>)"

text \<open>
  The file of \<open>literal_key_lines\<close> under a limit of 20 characters: its own text is 18
  long, the patched text 29.
\<close>

definition literal_key_lines :: "string list" where
  "literal_key_lines = [''d = {}'' @ [NL], ''x = d['' @ [SQ] @ ''a'' @ [SQ] @ '']'' @ [NL]]"

definition literal_key_disk :: disk where
  "literal_key_disk =
     Map.empty(''t.py'' \<mapsto> \<lparr>content = concat literal_key_lines, readable = True, writable = True,
                         capacity = None\<rparr>)"

definition limited_disk :: disk where
  "limited_disk =
     Map.empty(''t.py'' \<mapsto> \<lparr>content = concat literal_key_lines, readable = True, writable = True,
                         capacity = Some 20\<rparr>)"

definition frame_line :: "string \<Rightarrow> string \<Rightarrow> string \<Rightarrow> string" where
  "frame_line file_path line_num func =
     ''  File '' @ [DQ] @ file_path @ [DQ] @ '', line '' @ line_num @ '', in '' @ func @ [NL]"


definition key_traceback :: string where
  "key_traceback =
     ''Traceback (most recent call last):'' @ [NL]
     @ frame_line ''t.py'' ''2'' ''<module>'' @ ''    x = d['' @ [SQ] @ ''a'' @ [SQ] @ '']'' @ [NL]
     @ ''KeyError: '' @ [SQ] @ ''a'' @ [SQ] @ [NL]"

text \<open>
  Two target programs: one fails with the KeyError of \<open>key_traceback\<close> until its text
  has a call of \<open>.get(\<close>, the other fails with it on every run.
\<close>

definition run_until_patched :: runner where
  "run_until_patched disk script_path =
     (case disk script_path of
        None \<Rightarrow> ((2, ''No such file''), disk)
      | Some f \<Rightarrow> if contains (content f) ''.get('' then ((0, []), disk)
                  else ((1, key_traceback), disk))"

definition run_always_failing :: runner where
  "run_always_failing disk script_path = ((1, key_traceback), disk)"

section \<open>The span of a block patch\<close>

lemma block_loop_takeWhile:
  "block_loop lines base_indent idx block_lines =
     block_lines @ map block_entry (takeWhile (blank_or_deeper base_indent) (drop idx lines))"
proof (induction lines base_indent idx block_lines rule: block_loop.induct)
  case (1 lines base_indent idx block_lines)
  show ?case
  proof (cases "idx < length lines")
    case False
    then show ?thesis by (subst block_loop.simps) simp
  next
    case True
    then have d: "drop idx lines = lines ! idx # drop (idx + 1) lines"
      by (simp add: Cons_nth_drop_Suc)
    show ?thesis
    proof (cases "strip (lines ! idx) = []")
      case blank: True
      then have P: "blank_or_deeper base_indent (lines ! idx)" and E: "block_entry (lines ! idx) = []"
        by (simp_all add: blank_or_deeper_def block_entry_def)
      from "1.IH"(1)[OF True refl blank] True blank show ?thesis
        by (subst block_loop.simps) (simp add: d P E)
    next
      case nonblank: False
      show ?thesis
      proof (cases "indent_width (lines ! idx) \<le> base_indent")
        case shallow: True
        with nonblank have P: "\<not> blank_or_deeper base_indent (lines ! idx)"
          by (simp add: blank_or_deeper_def)
        from True nonblank shallow show ?thesis
          by (subst block_loop.simps) (simp add: d P)
      next
        case deep: False
        with nonblank have P: "blank_or_deeper base_indent (lines ! idx)"
          and E: "block_entry (lines ! idx) = rstrip (lines ! idx)"
          by (simp_all add: blank_or_deeper_def block_entry_def)
        from "1.IH"(2)[OF True refl nonblank deep] True nonblank deep show ?thesis
          by (subst block_loop.simps) (simp add: d P E)
      qed
    qed
  qed
qed

lemma get_indented_block_eq:
  assumes "start_idx < length lines"
  shows "get_indented_block lines start_idx =
           (rstrip (lines ! start_idx)
              # map block_entry (takeWhile (blank_or_deeper (indent_width (lines ! start_idx)))
                                   (drop (Suc start_idx) lines)),
            indent_width (lines ! start_idx))"
  using assms by (simp add: get_indented_block_def Let_def block_loop_takeWhile)

lemma replace_block_span:
  assumes "start_idx < length lines"
  shows "replace_block lines (Suc start_idx) (length (fst (get_indented_block lines start_idx))) fixed =
           take start_idx lines
           @ map (\<lambda>line. line @ [NL]) (filter (\<lambda>line. line \<noteq> []) (split NL fixed))
           @ dropWhile (blank_or_deeper (indent_width (lines ! start_idx))) (drop (Suc start_idx) lines)"
proof -
  let ?P = "blank_or_deeper (indent_width (lines ! start_idx))"
  let ?rest = "drop (Suc start_idx) lines"
  have "drop (start_idx + length (fst (get_indented_block lines start_idx))) lines
        = drop (length (takeWhile ?P ?rest)) ?rest"
    using assms by (simp add: get_indented_block_eq add.commute)
  also have "\<dots> = dropWhile ?P ?rest"
    by (simp add: dropWhile_eq_drop)
  finally show ?thesis
    by (simp add: replace_block_def Let_def)
qed

lemma rewrite_lines_block:
  assumes "is_multiline"
    and "search_block_keyword target_line \<or> endswith (strip target_line) '':''"
    and "get_indented_block lines (line_number - 1) = (block_lines, base_indent)"
    and "block_lines \<noteq> []"
    and "(if error_type \<in> set [''FileNotFoundError'', ''JSONDecodeError'', ''PermissionError'']
          then Inr (wrap_block_in_try_except block_lines base_indent error_type)
          else f target_line indent error_message) = Inr fixed"
  shows "rewrite_lines error_type is_multiline f lines line_number target_line indent error_message =
           Inr (replace_block lines line_number (length block_lines) fixed)"
  using assms by (simp add: rewrite_lines_def)

text \<open>
  C3, as amended. When a line is patched through the block branch (a rule with
  \<open>multiline\<close> set, on a line that has one of the words \<open>with\<close>, \<open>for\<close>, \<open>while\<close> or
  ends in a colon), the replaced span is the failing line and the lines directly after it
  that are blank or indented strictly deeper than the failing line; it ends at the first
  line that is not blank and is indented no deeper, or at the end of the file. The lines
  before the span and the lines from its end on are kept as they are, and the new lines
  stand in between.
\<close>

theorem block_scope_span:
  assumes "1 \<le> line_number" and "line_number \<le> length lines"
    and "is_multiline"
    and "search_block_keyword target_line \<or> endswith (strip target_line) '':''"
    and "(if error_type \<in> set [''FileNotFoundError'', ''JSONDecodeError'', ''PermissionError'']
          then Inr (wrap_block_in_try_except (fst (get_indented_block lines (line_number - 1)))
                      (indent_width (lines ! (line_number - 1))) error_type)
          else f target_line indent error_message) = Inr fixed"
  shows "length (fst (get_indented_block lines (line_number - 1))) =
           1 + length (takeWhile (blank_or_deeper (indent_width (lines ! (line_number - 1))))
                         (drop line_number lines))
         \<and> rewrite_lines error_type is_multiline f lines line_number target_line indent error_message =
           Inr (take (line_number - 1) lines
                @ map (\<lambda>line. line @ [NL]) (filter (\<lambda>line. line \<noteq> []) (split NL fixed))
                @ dropWhile (blank_or_deeper (indent_width (lines ! (line_number - 1))))
                    (drop line_number lines))"
proof -
  obtain start_idx where s: "line_number = Suc start_idx" and r: "start_idx < length lines"
    using assms(1,2) by (cases line_number) auto
  have g: "get_indented_block lines start_idx =
             (fst (get_indented_block lines start_idx), indent_width (lines ! start_idx))"
    using r by (simp add: get_indented_block_eq)
  have ne: "fst (get_indented_block lines start_idx) \<noteq> []"
    using r by (simp add: get_indented_block_eq)
  have len: "length (fst (get_indented_block lines start_idx)) =
               1 + length (takeWhile (blank_or_deeper (indent_width (lines ! start_idx)))
                             (drop (Suc start_idx) lines))"
    using r by (simp add: get_indented_block_eq)
  have "rewrite_lines error_type is_multiline f lines line_number target_line indent error_message =
          Inr (replace_block lines line_number (length (fst (get_indented_block lines start_idx))) fixed)"
  proof (rule rewrite_lines_block[OF assms(3,4)])
    show "get_indented_block lines (line_number - 1) =
            (fst (get_indented_block lines start_idx), indent_width (lines ! start_idx))"
      using g s by simp
    show "fst (get_indented_block lines start_idx) \<noteq> []" by (rule ne)
    show "(if error_type \<in> set [''FileNotFoundError'', ''JSONDecodeError'', ''PermissionError'']
           then Inr (wrap_block_in_try_except (fst (get_indented_block lines start_idx))
                       (indent_width (lines ! start_idx)) error_type)
           else f target_line indent error_message) = Inr fixed"
      using assms(5)[unfolded s] by (auto split: if_splits)
  qed
  then show ?thesis
    using len replace_block_span[OF r] s by simp
qed

text \<open>
  The theorem at the second line of \<open>nested_block_lines\<close>, the \<open>with\<close> line inside a
  function, patched for FileNotFoundError.
\<close>

theorem block_scope_span_witness:
  "length (fst (get_indented_block nested_block_lines (2 - 1))) =
     1 + length (takeWhile (blank_or_deeper (indent_width (nested_block_lines ! (2 - 1))))
                   (drop 2 nested_block_lines))
   \<and> rewrite_lines ''FileNotFoundError'' True always_ok nested_block_lines 2
        (nested_block_lines ! 1) ''    '' ''FileNotFoundError: x'' =
     Inr (take (2 - 1) nested_block_lines
          @ map (\<lambda>line. line @ [NL]) (filter (\<lambda>line. line \<noteq> [])
              (split NL (wrap_block_in_try_except (fst (get_indented_block nested_block_lines (2 - 1)))
                           (indent_width (nested_block_lines ! (2 - 1))) ''FileNotFoundError'')))
          @ dropWhile (blank_or_deeper (indent_width (nested_block_lines ! (2 - 1))))
              (drop 2 nested_block_lines))"
proof (rule block_scope_span)
  show "1 \<le> (2::nat)" by simp
  show "2 \<le> length nested_block_lines" by code_simp
  show "True" by simp
  show "search_block_keyword (nested_block_lines ! 1) \<or> endswith (strip (nested_block_lines ! 1)) '':''"
    by code_simp
  show "(if ''FileNotFoundError'' \<in> set [''FileNotFoundError'', ''JSONDecodeError'', ''PermissionError'']
         then Inr (wrap_block_in_try_except (fst (get_indented_block nested_block_lines (2 - 1)))
                     (indent_width (nested_block_lines ! (2 - 1))) ''FileNotFoundError'')
         else always_ok (nested_block_lines ! 1) ''    '' ''FileNotFoundError: x'') =
        Inr (wrap_block_in_try_except (fst (get_indented_block nested_block_lines (2 - 1)))
               (indent_width (nested_block_lines ! (2 - 1))) ''FileNotFoundError'')"
    by simp
qed

text \<open>
  C3 as it is stated fails. In \<open>nested_block_lines\<close> the \<open>with\<close> line is indented by
  four; the fourth line is empty, so its indentation is not greater than four and the
  span of the claim ends before it, at two lines. The code takes the empty line and the
  line after it as well and replaces four lines.
\<close>

theorem block_span_counterexample:
  "length (fst (get_indented_block nested_block_lines 1)) = 4
   \<and> spec_block_span nested_block_lines 1 = 2"
  by code_simp

section \<open>Blank lines of a block\<close>

text \<open>
  C4. The file \<open>t.py\<close> of \<open>with_block_disk\<close> has a \<open>with\<close> block whose third line is
  empty. \<open>get_indented_block\<close> carries the empty line in the block and
  \<open>wrap_block_in_try_except\<close> keeps it in its text, but the splice of \<open>fix_error\<close>
  leaves out every empty piece: the file written has no empty line.
\<close>

theorem blank_line_dropped:
  "readlines with_block_disk ''t.py'' = Inr with_block_lines
   \<and> fst (get_indented_block with_block_lines 0) = [''with open(f) as h:'', ''    a = 1'', [], ''    b = 2'']
   \<and> wrap_block_in_try_except (fst (get_indented_block with_block_lines 0)) 0 ''FileNotFoundError'' =
       ''try:'' @ [NL] @ ''    with open(f) as h:'' @ [NL] @ ''        a = 1'' @ [NL] @ [NL]
       @ ''        b = 2'' @ [NL] @ ''except FileNotFoundError:'' @ [NL] @ ''    return {}'' @ [NL]
   \<and> fst (fix_error ERROR_DATABASE with_block_disk ''t.py'' ''FileNotFoundError'' 1 ''FileNotFoundError: x'')
   \<and> readlines (snd (fix_error ERROR_DATABASE with_block_disk ''t.py'' ''FileNotFoundError'' 1
                       ''FileNotFoundError: x'')) ''t.py'' =
       Inr [''try:'' @ [NL], ''    with open(f) as h:'' @ [NL], ''        a = 1'' @ [NL],
            ''        b = 2'' @ [NL], ''except FileNotFoundError:'' @ [NL], ''    return {}'' @ [NL],
            ''c = 3'' @ [NL]]"
  by code_simp

section \<open>Writing the file\<close>

lemma writelines_Cons:
  "writelines disk file_path (line # rest) =
     (if fst (write_str disk file_path line)
      then writelines (snd (write_str disk file_path line)) file_path rest
      else (False, snd (write_str disk file_path line)))"
  by (cases "write_str disk file_path line") (simp split: bool.splits)

lemma writelines_eq:
  assumes "case capacity g of None \<Rightarrow> True | Some c \<Rightarrow> length (content g) \<le> c"
  shows "writelines (d(file_path \<mapsto> g)) file_path lines =
           (if (case capacity g of None \<Rightarrow> True
                | Some c \<Rightarrow> length (content g) + length (concat lines) \<le> c)
            then (True, d(file_path \<mapsto> g\<lparr>content := content g @ concat lines\<rparr>))
            else (False, d(file_path \<mapsto>
                    g\<lparr>content := take (the (capacity g)) (content g @ concat lines)\<rparr>)))"
  using assms
proof (induction lines arbitrary: g)
  case Nil
  then show ?case by (simp split: option.splits)
next
  case (Cons line rest)
  show ?case
  proof (cases "capacity g")
    case None
    let ?g = "g\<lparr>content := content g @ line\<rparr>"
    have w: "write_str (d(file_path \<mapsto> g)) file_path line = (True, d(file_path \<mapsto> ?g))"
      using None by (simp add: write_str_def)
    have ih: "writelines (d(file_path \<mapsto> ?g)) file_path rest =
                (True, d(file_path \<mapsto> ?g\<lparr>content := content ?g @ concat rest\<rparr>))"
    proof -
      have p: "case capacity ?g of None \<Rightarrow> True | Some c \<Rightarrow> length (content ?g) \<le> c"
        using None by simp
      show ?thesis by (subst Cons.IH[OF p]) (simp add: None)
    qed
    show ?thesis unfolding writelines_Cons w using None ih by (simp del: writelines.simps)
  next
    case (Some c)
    show ?thesis
    proof (cases "length (content g) + length line \<le> c")
      case True
      let ?g = "g\<lparr>content := content g @ line\<rparr>"
      have w: "write_str (d(file_path \<mapsto> g)) file_path line = (True, d(file_path \<mapsto> ?g))"
        using Some True by (simp add: write_str_def)
      have p: "case capacity ?g of None \<Rightarrow> True | Some c \<Rightarrow> length (content ?g) \<le> c"
        using Some True by simp
      have n1: "?g\<lparr>content := content ?g @ concat rest\<rparr>
                  = g\<lparr>content := content g @ concat (line # rest)\<rparr>"
        by simp
      have n2: "?g\<lparr>content := take (the (capacity ?g)) (content ?g @ concat rest)\<rparr>
                  = g\<lparr>content := take (the (capacity g)) (content g @ concat (line # rest))\<rparr>"
        by simp
      have n3: "(case capacity ?g of None \<Rightarrow> True
                 | Some c \<Rightarrow> length (content ?g) + length (concat rest) \<le> c)
                = (case capacity g of None \<Rightarrow> True
                   | Some c \<Rightarrow> length (content g) + length (concat (line # rest)) \<le> c)"
        using Some by (simp add: add.assoc)
      have "writelines (d(file_path \<mapsto> g)) file_path (line # rest)
              = writelines (d(file_path \<mapsto> ?g)) file_path rest"
        unfolding writelines_Cons w by (simp only: fst_conv snd_conv if_True)
      also note Cons.IH[OF p]
      finally show ?thesis unfolding n1 n2 n3 .
    next
      case False
      have w: "write_str (d(file_path \<mapsto> g)) file_path line
                 = (False, d(file_path \<mapsto> g\<lparr>content := take c (content g @ line)\<rparr>))"
        using Some False by (simp add: write_str_def)
      from False have "take c (content g @ line @ concat rest) = take c (content g @ line)"
        by simp
      with Some False show ?thesis unfolding writelines_Cons w by (simp del: writelines.simps)
    qed
  qed
qed

lemma write_file_eq:
  assumes "disk file_path = Some f"
  shows "write_file disk file_path lines =
           (if can_hold disk file_path (concat lines)
            then (True, disk(file_path \<mapsto> f\<lparr>content := concat lines\<rparr>))
            else (False, if writable f
                         then disk(file_path \<mapsto>
                                f\<lparr>content := take (the (capacity f)) (concat lines)\<rparr>)
                         else disk))"
proof (cases "writable f")
  case False
  with assms show ?thesis by (simp add: write_file_def open_w_def can_hold_def)
next
  case True
  have o: "open_w disk file_path = Some (disk(file_path \<mapsto> f\<lparr>content := []\<rparr>))"
    using assms True by (simp add: open_w_def)
  have c: "case capacity (f\<lparr>content := []\<rparr>) of None \<Rightarrow> True
           | Some c \<Rightarrow> length (content (f\<lparr>content := []\<rparr>)) \<le> c"
    by (simp split: option.splits)
  show ?thesis
    unfolding write_file_def o using assms True writelines_eq[OF c, of disk file_path lines]
    by (simp add: can_hold_def split: option.splits)
qed

lemma can_hold_content:
  "can_hold (disk(file_path \<mapsto> f\<lparr>content := x\<rparr>)) file_path text
     = can_hold (disk(file_path \<mapsto> f)) file_path text"
  by (simp add: can_hold_def)

lemma can_hold_Some:
  "disk file_path = Some f \<Longrightarrow>
   can_hold disk file_path text
     = (writable f \<and> (case capacity f of None \<Rightarrow> True | Some c \<Rightarrow> length text \<le> c))"
  by (simp add: can_hold_def)

lemma write_until_eq:
  assumes "disk file_path = Some f"
  shows "write_until disk file_path buffers =
           (case find (\<lambda>b. can_hold disk file_path (concat b)) buffers of
              Some b \<Rightarrow> (True, disk(file_path \<mapsto> f\<lparr>content := concat b\<rparr>))
            | None \<Rightarrow>
                (False, if buffers = [] \<or> \<not> writable f then disk
                        else disk(file_path \<mapsto>
                               f\<lparr>content := take (the (capacity f)) (concat (last buffers))\<rparr>)))"
  using assms
proof (induction buffers arbitrary: disk f)
  case Nil
  show ?case by simp
next
  case (Cons b rest)
  note w = write_file_eq[where disk = disk and file_path = file_path and f = f and lines = b,
             OF Cons.prems]
  show ?case
  proof (cases "can_hold disk file_path (concat b)")
    case True
    with w show ?thesis by simp
  next
    case False
    show ?thesis
    proof (cases "writable f")
      case nw: False
      have none: "find (\<lambda>b. can_hold disk file_path (concat b)) rest = None"
        using nw Cons.prems by (simp add: find_None_iff can_hold_Some)
      from w False nw have "write_file disk file_path b = (False, disk)" by simp
      with Cons.IH[where disk = disk and f = f, OF Cons.prems] False nw none show ?thesis by simp
    next
      case wr: True
      let ?c = "the (capacity f)"
      let ?f = "f\<lparr>content := take ?c (concat b)\<rparr>"
      let ?d = "disk(file_path \<mapsto> ?f)"
      from w False wr have wf: "write_file disk file_path b = (False, ?d)" by simp
      have d: "?d file_path = Some ?f" by simp
      have ch: "(\<lambda>b. can_hold ?d file_path (concat b)) = (\<lambda>b. can_hold disk file_path (concat b))"
        using Cons.prems by (simp add: can_hold_def)
      have u: "?d(file_path \<mapsto> ?f\<lparr>content := x\<rparr>) = disk(file_path \<mapsto> f\<lparr>content := x\<rparr>)" for x
        by simp
      have ih: "write_until ?d file_path rest =
                  (case find (\<lambda>b. can_hold disk file_path (concat b)) rest of
                     Some b \<Rightarrow> (True, disk(file_path \<mapsto> f\<lparr>content := concat b\<rparr>))
                   | None \<Rightarrow>
                       (False, if rest = [] then ?d
                               else disk(file_path \<mapsto>
                                      f\<lparr>content := take ?c (concat (last rest))\<rparr>)))"
        proof -
        have cp: "capacity ?f = capacity f" and wp: "writable ?f = writable f" by simp_all
        show ?thesis
          unfolding Cons.IH[where disk = ?d and f = ?f, OF d] ch u cp wp using wr
          by (simp split: option.splits)
      qed
      have "write_until disk file_path (b # rest) = write_until ?d file_path rest"
        using wf by simp
      with ih False wr show ?thesis
        by (cases "rest = []") (simp_all split: option.splits)
    qed
  qed
qed

section \<open>The rules and the writes\<close>

lemma handler_keeps_lines:
  assumes "fix_unbound_local_error lines line_number indent error_message = Inr (r, lines')"
    and "r \<noteq> Some True"
  shows "lines' = lines"
  using assms
  by (auto simp: fix_unbound_local_error_def Let_def split: option.splits if_splits)

lemma apply_pattern_eq:
  "apply_pattern error_type pattern disk file_path lines line_number target_line indent error_message =
     (case patched_lines error_type pattern lines line_number target_line indent error_message of
        None \<Rightarrow> Continue lines disk
      | Some lines' \<Rightarrow>
          if fst (write_file disk file_path lines')
          then Returned True (snd (write_file disk file_path lines'))
          else Continue lines' (snd (write_file disk file_path lines')))"
  using handler_keeps_lines[of lines line_number indent error_message]
  by (auto simp: apply_pattern_def patched_lines_def
           split: fixer.splits sum.splits prod.splits option.splits bool.splits)

lemma try_patterns_write_until:
  "try_patterns error_type disk file_path line_number target_line indent error_message patterns lines =
     write_until disk file_path
       (buffers_tried error_type patterns lines line_number target_line indent error_message)"
proof (induction patterns arbitrary: disk lines)
  case Nil
  show ?case by simp
next
  case (Cons pattern rest)
  show ?case
  proof (cases "detect pattern target_line")
    case False
    with Cons.IH show ?thesis by simp
  next
    case True
    show ?thesis
    proof (cases "patched_lines error_type pattern lines line_number target_line indent error_message")
      case None
      with True Cons.IH show ?thesis by (simp add: apply_pattern_eq)
    next
      case (Some lines')
      show ?thesis
      proof (cases "fst (write_file disk file_path lines')")
        case w: True
        with True Some show ?thesis
          by (cases "write_file disk file_path lines'") (simp add: apply_pattern_eq)
      next
        case w: False
        with True Some Cons.IH show ?thesis by (simp add: apply_pattern_eq)
      qed
    qed
  qed
qed

lemma fix_error_write_until:
  assumes "db error_type = Some patterns" and "readlines disk file_path = Inr lines"
    and "1 \<le> line_number" and "line_number \<le> length lines"
  shows "fix_error db disk file_path error_type line_number error_message =
           write_until disk file_path
             (buffers_tried error_type patterns lines line_number (lines ! (line_number - 1))
                (get_indent (lines ! (line_number - 1))) error_message)"
  using assms by (simp add: fix_error_def Let_def try_patterns_write_until)

lemma readlines_Some:
  assumes "readlines disk file_path = Inr lines"
  shows "\<exists>f. disk file_path = Some f"
  using assms by (auto simp: readlines_def split: option.splits)

section \<open>When the patch engine fails\<close>

text \<open>
  C5, as amended. \<open>fix_error\<close> returns \<open>False\<close> exactly when the class is not in
  the table, the file cannot be read, the line number is out of range, or no buffer that
  a rule with a matching trigger hands to the write is taken by the file in full. A rule
  gives no buffer when its function raises or when it is the special handler and returns
  \<open>None\<close> or \<open>False\<close>; a buffer is not taken when the open for writing is refused
  or when a write raises after the open. None of these ends the call: the loop goes on to
  the next rule, on the list of lines as the failed pass left it. The case where no
  trigger matches is the one where no buffer is handed over at all.
\<close>

theorem fix_error_fails_iff:
  "(\<not> fst (fix_error db disk file_path error_type line_number error_message)) =
     (case db error_type of
        None \<Rightarrow> True
      | Some patterns \<Rightarrow>
          (case readlines disk file_path of
             Inl e \<Rightarrow> True
           | Inr lines \<Rightarrow>
               line_number > length lines \<or> line_number < 1
               \<or> (\<forall>buffer \<in> set (buffers_tried error_type patterns lines line_number
                                      (lines ! (line_number - 1))
                                      (get_indent (lines ! (line_number - 1))) error_message).
                     \<not> can_hold disk file_path (concat buffer))))"
proof (cases "db error_type")
  case None
  then show ?thesis by (simp add: fix_error_def)
next
  case (Some patterns)
  show ?thesis
  proof (cases "readlines disk file_path")
    case (Inl e)
    with Some show ?thesis by (simp add: fix_error_def)
  next
    case (Inr lines)
    show ?thesis
    proof (cases "line_number > length lines \<or> line_number < 1")
      case True
      with Some Inr show ?thesis by (auto simp: fix_error_def)
    next
      case False
      then have r: "1 \<le> line_number" "line_number \<le> length lines" by auto
      from readlines_Some[OF Inr] obtain f where f: "disk file_path = Some f" ..
      let ?bs = "buffers_tried error_type patterns lines line_number (lines ! (line_number - 1))
                   (get_indent (lines ! (line_number - 1))) error_message"
      have "fst (fix_error db disk file_path error_type line_number error_message)
              = (find (\<lambda>b. can_hold disk file_path (concat b)) ?bs \<noteq> None)"
        unfolding fix_error_write_until[where db = db and error_type = error_type and patterns = patterns
          and disk = disk and file_path = file_path and lines = lines and line_number = line_number,
          OF Some Inr r]
          write_until_eq[where disk = disk and file_path = file_path and f = f, OF f]
        by (simp split: option.splits)
      then show ?thesis
        using Some Inr False by (auto simp: find_None_iff)
    qed
  qed
qed

text \<open>
  The equivalence at \<open>limited_disk\<close>, for the KeyError of its second line: the one
  buffer handed over is longer than the file's limit.
\<close>

theorem fix_error_fails_iff_witness:
  "\<not> fst (fix_error ERROR_DATABASE limited_disk ''t.py'' ''KeyError'' 2 ''KeyError: a'')"
  unfolding fix_error_fails_iff by code_simp

text \<open>
  C5 as it is stated fails. On \<open>two_locals_lines\<close>, with \<open>x\<close> unbound in the third
  line, the line number is in range, the trigger of the only rule of the class matches,
  and the handler does not raise: it returns \<open>False\<close>, because the line that
  initialises \<open>idx\<close> contains the text \<open>x = None\<close>. \<open>fix_error\<close> returns \<open>False\<close>
  all the same.
\<close>

theorem fix_error_failure_counterexample:
  "\<not> fst (fix_error ERROR_DATABASE two_locals_disk ''t.py'' ''UnboundLocalError'' 3 (unbound_message ''x''))
   \<and> readlines two_locals_disk ''t.py'' = Inr two_locals_lines
   \<and> 3 \<le> length two_locals_lines
   \<and> list_all (\<lambda>pattern. detect pattern (two_locals_lines ! 2)) (the (ERROR_DATABASE ''UnboundLocalError''))
   \<and> fix_unbound_local_error two_locals_lines 3 (get_indent (two_locals_lines ! 2)) (unbound_message ''x'')
     = Inr (Some False, two_locals_lines)"
  by code_simp

section \<open>What a successful call writes\<close>

text \<open>
  C6, as amended. The patch engine writes the new buffer into the target file itself,
  which the open empties first; there is no temporary file and no rename. When
  \<open>fix_error\<close> returns \<open>True\<close> the write has run to its end: the buffer is the first
  one handed over by the rules that the file takes in full, the file holds exactly the
  text of that buffer, its permissions and limit are as before, and every other file is
  as before.
\<close>

theorem successful_fix_writes_buffer:
  assumes "fst (fix_error db disk file_path error_type line_number error_message)"
  shows "\<exists>patterns lines f buffer.
           db error_type = Some patterns \<and> readlines disk file_path = Inr lines
           \<and> disk file_path = Some f
           \<and> find (\<lambda>b. can_hold disk file_path (concat b))
                 (buffers_tried error_type patterns lines line_number (lines ! (line_number - 1))
                    (get_indent (lines ! (line_number - 1))) error_message) = Some buffer
           \<and> snd (fix_error db disk file_path error_type line_number error_message)
               = disk(file_path \<mapsto> f\<lparr>content := concat buffer\<rparr>)"
proof -
  from assms obtain patterns where p: "db error_type = Some patterns"
    by (cases "db error_type") (simp_all add: fix_error_def)
  from assms p obtain lines where l: "readlines disk file_path = Inr lines"
    by (cases "readlines disk file_path") (simp_all add: fix_error_def)
  from assms p l have r: "1 \<le> line_number" "line_number \<le> length lines"
    by (auto simp: fix_error_def split: if_splits)
  from readlines_Some[OF l] obtain f where f: "disk file_path = Some f" ..
  let ?bs = "buffers_tried error_type patterns lines line_number (lines ! (line_number - 1))
               (get_indent (lines ! (line_number - 1))) error_message"
  note e = fix_error_write_until[where db = db and error_type = error_type and patterns = patterns
          and disk = disk and file_path = file_path and lines = lines and line_number = line_number
          and error_message = error_message, OF p l r]
  note w = write_until_eq[where disk = disk and file_path = file_path and f = f and buffers = ?bs,
             OF f]
  from assms e w obtain buffer where
    b: "find (\<lambda>b. can_hold disk file_path (concat b)) ?bs = Some buffer"
    by (cases "find (\<lambda>b. can_hold disk file_path (concat b)) ?bs") simp_all
  with e w have "snd (fix_error db disk file_path error_type line_number error_message)
                   = disk(file_path \<mapsto> f\<lparr>content := concat buffer\<rparr>)"
    by simp
  with p l f b show ?thesis by blast
qed

text \<open>
  The theorem at the call on \<open>with_block_disk\<close>: the file holds the seven lines of
  \<open>with_block_patched\<close>.
\<close>

theorem successful_fix_writes_buffer_witness:
  "snd (fix_error ERROR_DATABASE with_block_disk ''t.py'' ''FileNotFoundError'' 1 ''FileNotFoundError: x'')
     = with_block_disk(''t.py'' \<mapsto>
         \<lparr>content = concat with_block_patched, readable = True, writable = True, capacity = None\<rparr>)"
proof -
  have h: "fst (fix_error ERROR_DATABASE with_block_disk ''t.py'' ''FileNotFoundError'' 1
                  ''FileNotFoundError: x'')"
    by code_simp
  from successful_fix_writes_buffer[OF h] obtain patterns lines f buffer where
    p: "ERROR_DATABASE ''FileNotFoundError'' = Some patterns"
    and l: "readlines with_block_disk ''t.py'' = Inr lines"
    and f: "with_block_disk ''t.py'' = Some f"
    and b: "find (\<lambda>b. can_hold with_block_disk ''t.py'' (concat b))
              (buffers_tried ''FileNotFoundError'' patterns lines 1 (lines ! (1 - 1))
                 (get_indent (lines ! (1 - 1))) ''FileNotFoundError: x'') = Some buffer"
    and s: "snd (fix_error ERROR_DATABASE with_block_disk ''t.py'' ''FileNotFoundError'' 1
                   ''FileNotFoundError: x'')
              = with_block_disk(''t.py'' \<mapsto> f\<lparr>content := concat buffer\<rparr>)"
    by blast
  from p have p': "patterns = FileNotFoundError_patterns" by (simp add: ERROR_DATABASE_def)
  have "readlines with_block_disk ''t.py'' = Inr with_block_lines" by code_simp
  with l have l': "lines = with_block_lines" by simp
  from f have f': "f = \<lparr>content = concat with_block_lines, readable = True, writable = True,
                         capacity = None\<rparr>"
    by (simp add: with_block_disk_def)
  have "find (\<lambda>b. can_hold with_block_disk ''t.py'' (concat b))
          (buffers_tried ''FileNotFoundError'' FileNotFoundError_patterns with_block_lines 1
             (with_block_lines ! (1 - 1)) (get_indent (with_block_lines ! (1 - 1)))
             ''FileNotFoundError: x'') = Some with_block_patched"
    by code_simp
  with b p' l' have "buffer = with_block_patched" by simp
  with s f' show ?thesis by simp
qed

text \<open>
  C6 as it is stated fails. The call on \<open>with_block_disk\<close> writes the seven lines of
  \<open>with_block_patched\<close>. Stopped right after the open, the write leaves an empty file;
  stopped after two lines, a file of two lines. Neither is the old text or the new one.
\<close>

theorem write_not_atomic:
  "fst (fix_error ERROR_DATABASE with_block_disk ''t.py'' ''FileNotFoundError'' 1 ''FileNotFoundError: x'')
   \<and> map_option content (snd (fix_error ERROR_DATABASE with_block_disk ''t.py'' ''FileNotFoundError'' 1
                               ''FileNotFoundError: x'') ''t.py'')
     = Some (concat with_block_patched)
   \<and> map_option (\<lambda>d. map_option content (d ''t.py''))
       (write_file_stopped with_block_disk ''t.py'' with_block_patched 0) = Some (Some [])
   \<and> map_option (\<lambda>d. map_option content (d ''t.py''))
       (write_file_stopped with_block_disk ''t.py'' with_block_patched 2)
     = Some (Some (''try:'' @ [NL] @ ''    with open(f) as h:'' @ [NL]))"
  by code_simp

section \<open>What a failing call leaves on the disk\<close>




section \<open>The order of the rules\<close>





text \<open>
  On that line the trigger of the second rule, for a literal key, matches as well; the
  file written is the \<open>try\<close> block of the first rule.
\<close>

lemma key_chain_both_match:
  "detect KeyError_chained (key_chain_lines ! 0) \<and> detect KeyError_literal (key_chain_lines ! 0)
   \<and> map_option content (snd (fix_error ERROR_DATABASE key_chain_disk ''t.py'' ''KeyError'' 1 ''KeyError: b'') ''t.py'')
     = Some (''try:'' @ [NL] @ ''    x = d['' @ [DQ] @ ''a'' @ [DQ] @ '']['' @ [DQ] @ ''b'' @ [DQ] @ '']'' @ [NL]
             @ ''except (IndexError, KeyError, TypeError):'' @ [NL] @ ''    return {}'' @ [NL])"
  by code_simp

section \<open>An initialisation that is already there\<close>

text \<open>
  C7, as amended. When the handler of UnboundLocalError finds, by text containment, an
  initialisation of the variable in the lines after the header of the enclosing
  function, it leaves the buffer unchanged and returns \<open>False\<close>; \<open>fix_error\<close> then
  writes nothing and reports failure.
\<close>

theorem initialised_local_is_declined:
  assumes "readlines disk file_path = Inr lines"
    and "1 \<le> line_number" and "line_number \<le> length lines"
    and "re_search m_local_variable error_message = Some var_name"
    and "func_line_idx = (case find_def_line lines line_number of None \<Rightarrow> 0 | Some i \<Rightarrow> i)"
    and "var_already_initialized lines func_line_idx (find_insert_idx lines func_line_idx) var_name"
  shows "fix_unbound_local_error lines line_number indent error_message = Inr (Some False, lines)
         \<and> fix_error ERROR_DATABASE disk file_path ''UnboundLocalError'' line_number error_message
           = (False, disk)"
proof -
  have h: "\<And>indent. fix_unbound_local_error lines line_number indent error_message
             = Inr (Some False, lines)"
    using assms(2-6) by (auto simp: fix_unbound_local_error_def Let_def)
  have "ERROR_DATABASE ''UnboundLocalError'' = Some UnboundLocalError_patterns"
    by (simp add: ERROR_DATABASE_def)
  then have "fix_error ERROR_DATABASE disk file_path ''UnboundLocalError'' line_number error_message
               = (False, disk)"
    using assms(1-3) h
    by (simp add: fix_error_def Let_def UnboundLocalError_patterns_def apply_pattern_def)
  with h show ?thesis by simp
qed

text \<open>
  The theorem at \<open>deleted_local_lines\<close>: \<open>x\<close> is initialised after the header,
  deleted, and read in the fourth line.
\<close>

theorem initialised_local_is_declined_witness:
  "fix_unbound_local_error deleted_local_lines 4 ''    '' (unbound_message ''x'')
     = Inr (Some False, deleted_local_lines)
   \<and> fix_error ERROR_DATABASE deleted_local_disk ''t.py'' ''UnboundLocalError'' 4 (unbound_message ''x'')
     = (False, deleted_local_disk)"
proof (rule initialised_local_is_declined[where var_name = "''x''" and func_line_idx = 0])
  show "readlines deleted_local_disk ''t.py'' = Inr deleted_local_lines" by code_simp
  show "1 \<le> (4::nat)" by simp
  show "4 \<le> length deleted_local_lines" by code_simp
  show "re_search m_local_variable (unbound_message ''x'') = Some ''x''" by code_simp
  show "0 = (case find_def_line deleted_local_lines 4 of None \<Rightarrow> 0 | Some i \<Rightarrow> i)" by code_simp
  show "var_already_initialized deleted_local_lines 0 (find_insert_idx deleted_local_lines 0) ''x''"
    by code_simp
qed

text \<open>
  C7 as it is stated fails: on that file the initialisation is found and the patch engine
  reports failure, not success.
\<close>

theorem initialised_local_counterexample:
  "var_already_initialized deleted_local_lines 0 (find_insert_idx deleted_local_lines 0) ''x''
   \<and> \<not> fst (fix_error ERROR_DATABASE deleted_local_disk ''t.py'' ''UnboundLocalError'' 4
              (unbound_message ''x''))"
  by code_simp

section \<open>The frames of a traceback\<close>












section \<open>The loop ends within its bound\<close>

lemma loop_body_Next:
  assumes "loop_body run db abspath script_path s = Next s'"
  shows "iteration s' = iteration s + 1
         \<and> (\<exists>descriptor. descriptor \<notin> set (fixed_errors s)
               \<and> fixed_errors s' = fixed_errors s @ [descriptor])"
  using assms
  by (auto simp: loop_body_def Let_def split: prod.splits option.splits if_splits bool.splits)

lemma loop_body_Break:
  assumes "loop_body run db abspath script_path s = Break reason s'"
  shows "iteration s' = iteration s + 1 \<and> fixed_errors s' = fixed_errors s"
  using assms
  by (auto simp: loop_body_def Let_def split: prod.splits option.splits if_splits bool.splits)

lemma main_loop_bound:
  assumes "iteration s \<le> n"
    and "main_loop run db abspath script_path n s = (reason, s')"
  shows "(case reason of
            None \<Rightarrow> iteration s' = n
          | Some r \<Rightarrow> iteration s < iteration s' \<and> iteration s' \<le> n)
         \<and> length (fixed_errors s') + iteration s \<le> length (fixed_errors s) + iteration s'"
  using assms
proof (induction run db abspath script_path n s rule: main_loop.induct)
  case (1 run db abspath script_path n s)
  show ?case
  proof (cases "iteration s < n")
    case False
    with "1.prems" show ?thesis by (simp add: main_loop.simps)
  next
    case True
    show ?thesis
    proof (cases "loop_body run db abspath script_path s")
      case (Break r t)
      with True "1.prems" have "reason = Some r" "s' = t" by (simp_all add: main_loop.simps)
      with loop_body_Break[OF Break] True show ?thesis by simp
    next
      case (Next t)
      from loop_body_Next[OF Next] obtain d where
        it: "iteration t = iteration s + 1" and fx: "fixed_errors t = fixed_errors s @ [d]"
        by auto
      from True it have le: "iteration t \<le> n" by simp
      from True Next "1.prems" have m: "main_loop run db abspath script_path n t = (reason, s')"
        by (simp add: main_loop.simps)
      from "1.IH"[OF True Next le m] it fx show ?thesis
        by (cases reason) auto
    qed
  qed
qed

text \<open>
  C1. For every target program, rule table and disk the loop ends, and it ends within
  the bound: either a \<open>break\<close> leaves it after at least one and at most \<open>n\<close> passes,
  or its condition ends it after exactly \<open>n\<close> passes. \<open>main\<close> runs it with the bound
  100. The function \<open>main_loop\<close> is total: its termination is proved where it is
  defined, by the distance of the counter from the bound. The number of recorded fixes
  never exceeds the number of passes.
\<close>

theorem main_reaches_terminal_state:
  "(case main_loop run db abspath script_path n \<lparr>iteration = 0, fixed_errors = [], disk_of = disk\<rparr> of
      (reason, s) \<Rightarrow>
        (case reason of
           None \<Rightarrow> terminal_of reason = IterationLimitReached \<and> iteration s = n
         | Some r \<Rightarrow> 1 \<le> iteration s \<and> iteration s \<le> n)
        \<and> length (fixed_errors s) \<le> iteration s)
   \<and> (case main run db abspath script_path disk of
        (reason, s, timeout) \<Rightarrow>
          (case reason of
             None \<Rightarrow> terminal_of reason = IterationLimitReached \<and> iteration s = 100
           | Some r \<Rightarrow> 1 \<le> iteration s \<and> iteration s \<le> 100)
          \<and> length (fixed_errors s) \<le> iteration s)"
proof -
  have g: "(case reason of
              None \<Rightarrow> terminal_of reason = IterationLimitReached \<and> iteration s = n
            | Some r \<Rightarrow> 1 \<le> iteration s \<and> iteration s \<le> n)
           \<and> length (fixed_errors s) \<le> iteration s"
    if "main_loop run db abspath script_path n \<lparr>iteration = 0, fixed_errors = [], disk_of = disk\<rparr>
          = (reason, s)" for n reason s
    using main_loop_bound[OF _ that] by (cases reason) auto
  show ?thesis
    using g by (auto simp: main_def Let_def split: prod.splits)
qed

text \<open>
  The theorem at two programs on \<open>literal_key_disk\<close>: the one that runs well once
  patched ends with success in its second pass; the one that keeps failing ends within
  the bound too.
\<close>

theorem main_reaches_terminal_state_witness:
  "(case main run_until_patched ERROR_DATABASE id ''t.py'' literal_key_disk of
      (reason, s, timeout) \<Rightarrow>
        reason = Some Success \<and> terminal_of reason = Converged \<and> iteration s = 2
        \<and> fixed_errors s = [''KeyError at line 2''] \<and> \<not> timeout)
   \<and> (case main run_always_failing ERROR_DATABASE id ''t.py'' literal_key_disk of
        (reason, s, timeout) \<Rightarrow>
          1 \<le> iteration s \<and> iteration s \<le> 100 \<and> length (fixed_errors s) \<le> iteration s)"
proof -
  have a: "case main run_until_patched ERROR_DATABASE id ''t.py'' literal_key_disk of
      (reason, s, timeout) \<Rightarrow>
        reason = Some Success \<and> terminal_of reason = Converged \<and> iteration s = 2
        \<and> fixed_errors s = [''KeyError at line 2''] \<and> \<not> timeout"
    by code_simp
  have r: "fst (main run_always_failing ERROR_DATABASE id ''t.py'' literal_key_disk) = Some InfiniteLoop"
    by code_simp
  from r main_reaches_terminal_state[where run = run_always_failing and db = ERROR_DATABASE
           and abspath = id and script_path = "''t.py''" and disk = literal_key_disk and n = 100]
  have "case main run_always_failing ERROR_DATABASE id ''t.py'' literal_key_disk of
        (reason, s, timeout) \<Rightarrow>
          1 \<le> iteration s \<and> iteration s \<le> 100 \<and> length (fixed_errors s) \<le> iteration s"
    by (auto split: prod.splits)
  with a show ?thesis by simp
qed

section \<open>The recorded signatures\<close>

lemma state_after_distinct:
  "state_after run db abspath script_path n disk k = Some s \<Longrightarrow> distinct (fixed_errors s)"
proof (induction k arbitrary: s)
  case 0
  then show ?case by auto
next
  case (Suc k)
  from Suc.prems obtain t where t: "state_after run db abspath script_path n disk k = Some t"
    and b: "loop_body run db abspath script_path t = Next s"
    by (auto split: option.splits if_splits step.splits)
  from loop_body_Next[OF b] obtain d where "d \<notin> set (fixed_errors t)"
    and "fixed_errors s = fixed_errors t @ [d]" by auto
  with Suc.IH[OF t] show ?case by simp
qed

lemma loop_body_recurring:
  assumes "run_and_capture_error run (disk_of s) script_path = (Some stderr, disk1)"
    and "stderr \<noteq> []"
    and "parse_error db abspath stderr (Some script_path)
           = (Some error_type, Some error_file, Some error_line, full_error)"
    and "error_type \<noteq> []" and "error_file \<noteq> []" and "error_line \<noteq> 0"
    and "abspath error_file = abspath script_path"
    and "error_descriptor error_type error_line \<in> set (fixed_errors s)"
  shows "loop_body run db abspath script_path s
           = Break InfiniteLoop (s\<lparr>iteration := iteration s + 1, disk_of := disk1\<rparr>)"
  using assms by (simp add: loop_body_def Let_def)

text \<open>
  C2. In every state the loop reaches, the recorded descriptors are pairwise distinct; a
  descriptor is the text made of the error type and the line number, so two recorded
  fixes never have the same type and line. When the run in such a state gives a
  diagnostic of the target script whose descriptor is recorded already, the pass ends
  with the \<open>break\<close> of the detected cycle: the record is unchanged and the disk is the
  one the run left, \<open>fix_error\<close> is not called. The session then ends in the state
  Cycled.
\<close>

theorem recorded_signatures_distinct:
  assumes "state_after run db abspath script_path n disk k = Some s"
  shows "distinct (fixed_errors s)
         \<and> (\<forall>stderr disk1 error_type error_file error_line full_error.
               run_and_capture_error run (disk_of s) script_path = (Some stderr, disk1)
               \<and> stderr \<noteq> []
               \<and> parse_error db abspath stderr (Some script_path)
                   = (Some error_type, Some error_file, Some error_line, full_error)
               \<and> error_type \<noteq> [] \<and> error_file \<noteq> [] \<and> error_line \<noteq> 0
               \<and> abspath error_file = abspath script_path
               \<and> error_descriptor error_type error_line \<in> set (fixed_errors s)
               \<longrightarrow>
               loop_body run db abspath script_path s
                 = Break InfiniteLoop (s\<lparr>iteration := iteration s + 1, disk_of := disk1\<rparr>)
               \<and> (iteration s < n \<longrightarrow>
                    main_loop run db abspath script_path n s
                      = (Some InfiniteLoop, s\<lparr>iteration := iteration s + 1, disk_of := disk1\<rparr>)
                    \<and> terminal_of (fst (main_loop run db abspath script_path n s)) = Cycled))"
proof (intro conjI allI impI)
  show "distinct (fixed_errors s)" by (rule state_after_distinct[OF assms])
next
  fix stderr disk1 error_type error_file error_line full_error
  assume h: "run_and_capture_error run (disk_of s) script_path = (Some stderr, disk1)
               \<and> stderr \<noteq> []
               \<and> parse_error db abspath stderr (Some script_path)
                   = (Some error_type, Some error_file, Some error_line, full_error)
               \<and> error_type \<noteq> [] \<and> error_file \<noteq> [] \<and> error_line \<noteq> 0
               \<and> abspath error_file = abspath script_path
               \<and> error_descriptor error_type error_line \<in> set (fixed_errors s)"
  then have b: "loop_body run db abspath script_path s
           = Break InfiniteLoop (s\<lparr>iteration := iteration s + 1, disk_of := disk1\<rparr>)"
    by (intro loop_body_recurring[where stderr = stderr and error_type = error_type
          and error_file = error_file and error_line = error_line and full_error = full_error])
       simp_all
  show "loop_body run db abspath script_path s
           = Break InfiniteLoop (s\<lparr>iteration := iteration s + 1, disk_of := disk1\<rparr>)"
    by (rule b)
  assume lt: "iteration s < n"
  then show m: "main_loop run db abspath script_path n s
                  = (Some InfiniteLoop, s\<lparr>iteration := iteration s + 1, disk_of := disk1\<rparr>)"
    using b by (simp add: main_loop.simps)
  show "terminal_of (fst (main_loop run db abspath script_path n s)) = Cycled"
    unfolding m by simp
qed

text \<open>
  The theorem at the state after the first pass of the program that keeps failing: the
  KeyError of line 2 is recorded, arrives again, and the session ends as a cycle.
\<close>

theorem recorded_signatures_distinct_witness:
  "(case state_after run_always_failing ERROR_DATABASE id ''t.py'' 100 literal_key_disk 1 of
      None \<Rightarrow> False
    | Some s \<Rightarrow>
        fixed_errors s = [''KeyError at line 2'']
        \<and> distinct (fixed_errors s)
        \<and> loop_body run_always_failing ERROR_DATABASE id ''t.py'' s
            = Break InfiniteLoop (s\<lparr>iteration := iteration s + 1, disk_of := disk_of s\<rparr>)
        \<and> terminal_of (fst (main_loop run_always_failing ERROR_DATABASE id ''t.py'' 100 s)) = Cycled)"
proof -
  have "case state_after run_always_failing ERROR_DATABASE id ''t.py'' 100 literal_key_disk 1 of
          None \<Rightarrow> False
        | Some s \<Rightarrow> fixed_errors s = [''KeyError at line 2''] \<and> iteration s = 1"
    by code_simp
  then obtain s where s: "state_after run_always_failing ERROR_DATABASE id ''t.py'' 100 literal_key_disk 1
                            = Some s"
    and fx: "fixed_errors s = [''KeyError at line 2'']" and it: "iteration s = 1"
    by (auto split: option.splits)
  have r: "run_and_capture_error run_always_failing (disk_of s) ''t.py'' = (Some key_traceback, disk_of s)"
    by (simp add: run_and_capture_error_def run_always_failing_def)
  have ne: "key_traceback \<noteq> []" by code_simp
  have p: "parse_error ERROR_DATABASE id key_traceback (Some ''t.py'')
             = (Some ''KeyError'', Some ''t.py'', Some 2, key_traceback)"
    by code_simp
  have d: "error_descriptor ''KeyError'' 2 = ''KeyError at line 2''" by code_simp
  from recorded_signatures_distinct[OF s] have
    "distinct (fixed_errors s)"
    and "run_and_capture_error run_always_failing (disk_of s) ''t.py'' = (Some key_traceback, disk_of s)
           \<and> key_traceback \<noteq> []
           \<and> parse_error ERROR_DATABASE id key_traceback (Some ''t.py'')
               = (Some ''KeyError'', Some ''t.py'', Some 2, key_traceback)
           \<and> ''KeyError'' \<noteq> [] \<and> ''t.py'' \<noteq> [] \<and> (2::nat) \<noteq> 0
           \<and> id ''t.py'' = id ''t.py''
           \<and> error_descriptor ''KeyError'' 2 \<in> set (fixed_errors s)
           \<longrightarrow>
           loop_body run_always_failing ERROR_DATABASE id ''t.py'' s
             = Break InfiniteLoop (s\<lparr>iteration := iteration s + 1, disk_of := disk_of s\<rparr>)
           \<and> (iteration s < 100 \<longrightarrow>
                main_loop run_always_failing ERROR_DATABASE id ''t.py'' 100 s
                  = (Some InfiniteLoop, s\<lparr>iteration := iteration s + 1, disk_of := disk_of s\<rparr>)
                \<and> terminal_of (fst (main_loop run_always_failing ERROR_DATABASE id ''t.py'' 100 s)) = Cycled)"
    by blast+
  with r ne p d fx it have
    "distinct (fixed_errors s)
     \<and> loop_body run_always_failing ERROR_DATABASE id ''t.py'' s
         = Break InfiniteLoop (s\<lparr>iteration := iteration s + 1, disk_of := disk_of s\<rparr>)
     \<and> terminal_of (fst (main_loop run_always_failing ERROR_DATABASE id ''t.py'' 100 s)) = Cycled"
    by simp
  with s fx show ?thesis by simp
qed

end
